theory Spec2Isabelle
  imports Complex_Main "HOL-Library.Multiset"
begin

section \<open>Numbers\<close>

text \<open>
  The program is TypeScript; every \<^verbatim>\<open>number\<close> is modelled as a real. Rounding of
  IEEE doubles, NaN and the infinities are outside the model. Loop counters, pixel
  coordinates and tile sizes of the program are integers far below \<open>2^53\<close>, on which
  double arithmetic is exact.
\<close>

text \<open>\<^verbatim>\<open>Math.round\<close>: the nearest integer, a tie going towards plus infinity.\<close>

definition Math_round :: "real \<Rightarrow> real" where
  "Math_round x = of_int \<lfloor>x + 1 / 2\<rfloor>"

text \<open>The remainder operator \<^verbatim>\<open>%\<close> of the language: the result has the sign of the dividend.\<close>

definition js_trunc :: "real \<Rightarrow> real" where
  "js_trunc x = (if 0 \<le> x then of_int \<lfloor>x\<rfloor> else of_int \<lceil>x\<rceil>)"

definition js_rem :: "real \<Rightarrow> real \<Rightarrow> real" where
  "js_rem a n = a - n * js_trunc (a / n)"

section \<open>grid.ts: configuration and positions\<close>

definition SCALE :: real where
  "SCALE = 4"

record GridConfig =
  tileWidth :: real
  grassHeight :: real
  soilHeight :: real
  gridSize :: real
  canvasWidth :: real
  canvasHeight :: real

text \<open>
  \<^verbatim>\<open>GRID_CONFIG\<close> is a module-level object. The functions below read it; the model passes
  it as their first argument.
\<close>

definition GRID_CONFIG :: GridConfig where
  "GRID_CONFIG =
     \<lparr>tileWidth = 100 * SCALE, grassHeight = 15 * SCALE, soilHeight = 40 * SCALE,
      gridSize = 0, canvasWidth = 0, canvasHeight = 0\<rparr>"

record GridPosition =
  gridX :: real
  gridY :: real
  pixelX :: real
  pixelY :: real

record CanvasDimensions =
  width :: real
  height :: real

definition calculateCanvasDimensions :: "GridConfig \<Rightarrow> real \<Rightarrow> CanvasDimensions" where
  "calculateCanvasDimensions cfg n =
     (let totalGridWidth = (n * 2) * (tileWidth cfg / 2);
          calculatedWidth = totalGridWidth + (100 * SCALE);
          calculatedHeight =
            n * (tileWidth cfg / 2) + (soilHeight cfg + grassHeight cfg) * 2 + (200 * SCALE);
          canvasSize = max calculatedWidth calculatedHeight
      in \<lparr>width = canvasSize, height = canvasSize\<rparr>)"

text \<open>
  The two loops of \<^verbatim>\<open>generateGridPositions\<close> count \<open>y\<close> and \<open>x\<close> up from 0 while they are
  below the grid size: for a real grid size \<open>n\<close> these are the naturals below \<open>\<lceil>n\<rceil>\<close>,
  none when \<open>n \<le> 0\<close>. Positions are pushed row by row.
\<close>

definition tilePosition :: "GridConfig \<Rightarrow> real \<Rightarrow> real \<Rightarrow> nat \<Rightarrow> nat \<Rightarrow> GridPosition" where
  "tilePosition cfg startX startY y x =
     (let isoX = (real x - real y) * (tileWidth cfg / 2);
          isoY = (real x + real y) * (tileWidth cfg / 4);
          px = startX + isoX;
          py = startY + isoY + (tileWidth cfg / 4)
      in \<lparr>gridX = real x, gridY = real y, pixelX = Math_round px, pixelY = Math_round py\<rparr>)"

definition generateGridPositions :: "GridConfig \<Rightarrow> real \<Rightarrow> real \<Rightarrow> GridPosition list" where
  "generateGridPositions cfg n cw =
     (let startX = cw / 2;
          startY = 150 * SCALE;
          k = nat \<lceil>n\<rceil>
      in concat (map (\<lambda>y. map (\<lambda>x. tilePosition cfg startX startY y x) [0..<k]) [0..<k]))"

text \<open>
  Neither function contains a \<^verbatim>\<open>throw\<close>, and arithmetic on numbers never raises: a call
  always completes with a value. The outcome of a call makes this explicit.
\<close>

datatype 'a outcome = Returned 'a | Rejected string

definition calculateCanvasDimensions_call :: "GridConfig \<Rightarrow> real \<Rightarrow> CanvasDimensions outcome" where
  "calculateCanvasDimensions_call cfg n = Returned (calculateCanvasDimensions cfg n)"

definition generateGridPositions_call ::
  "GridConfig \<Rightarrow> real \<Rightarrow> real \<Rightarrow> GridPosition list outcome" where
  "generateGridPositions_call cfg n cw = Returned (generateGridPositions cfg n cw)"

definition is_rejected :: "'a outcome \<Rightarrow> bool" where
  "is_rejected r = (case r of Rejected msg \<Rightarrow> True | Returned v \<Rightarrow> False)"

section \<open>grid.ts: paint order\<close>

text \<open>
  \<^verbatim>\<open>Array.prototype.sort\<close> with a comparator is a stable sort (ECMAScript 2019 and
  later): an element goes before another when the comparator is negative, and elements
  that compare equal keep their order. The model is the stable insertion sort. The
  spread \<^verbatim>\<open>[...positions]\<close> copies the array, so the argument itself is not changed.
\<close>

fun insert_by :: "('a \<Rightarrow> 'a \<Rightarrow> real) \<Rightarrow> 'a \<Rightarrow> 'a list \<Rightarrow> 'a list" where
  "insert_by cmp x [] = [x]"
| "insert_by cmp x (y # ys) = (if cmp x y \<le> 0 then x # y # ys else y # insert_by cmp x ys)"

definition Array_sort :: "('a \<Rightarrow> 'a \<Rightarrow> real) \<Rightarrow> 'a list \<Rightarrow> 'a list" where
  "Array_sort cmp xs = foldr (insert_by cmp) xs []"

definition sortPositionsForRendering :: "GridPosition list \<Rightarrow> GridPosition list" where
  "sortPositionsForRendering positions =
     Array_sort (\<lambda>a b. (gridY a + gridX a) - (gridY b + gridX b)) positions"

section \<open>grid.ts: drawing one tile\<close>

text \<open>
  The drawing context is an object of the canvas library. Its effect is modelled as the
  sequence of calls and property assignments the drawing functions make on it, in
  order. A point \<^verbatim>\<open>{x, y}\<close> is a pair.
\<close>

type_synonym point = "real \<times> real"

datatype ctx_op =
    BeginPath
  | MoveTo real real
  | LineTo real real
  | ClosePath
  | Ellipse real real real real real real real
  | FillStyle string
  | Fill
  | StrokeStyle string
  | LineWidth real
  | LineCap string
  | Stroke

text \<open>\<^verbatim>\<open>strokeColor || color\<close>: a missing or empty stroke colour falls back to the fill colour.\<close>

definition stroke_or :: "string option \<Rightarrow> string \<Rightarrow> string" where
  "stroke_or strokeColor color =
     (case strokeColor of None \<Rightarrow> color | Some s \<Rightarrow> if s = [] then color else s)"

definition lineTo :: "point \<Rightarrow> ctx_op" where
  "lineTo p = LineTo (fst p) (snd p)"

definition moveTo :: "point \<Rightarrow> ctx_op" where
  "moveTo p = MoveTo (fst p) (snd p)"

definition drawPoly :: "point list \<Rightarrow> string \<Rightarrow> string option \<Rightarrow> ctx_op list" where
  "drawPoly points color strokeColor =
     (case points of
        [] \<Rightarrow> []
      | p # ps \<Rightarrow>
          [BeginPath, moveTo p] @ map lineTo ps
          @ [ClosePath, FillStyle color, Fill,
             StrokeStyle (stroke_or strokeColor color), LineWidth (1 * SCALE), Stroke])"

text \<open>\<^verbatim>\<open>contentWidth ? contentWidth / 2 : ...\<close>: a missing or zero width takes the default.\<close>

definition drawShadow :: "GridConfig \<Rightarrow> real \<Rightarrow> real \<Rightarrow> real option \<Rightarrow> ctx_op list" where
  "drawShadow cfg centerX centerY contentWidth =
     (let radiusX = (case contentWidth of
                       None \<Rightarrow> tileWidth cfg / 4.5
                     | Some w \<Rightarrow> if w \<noteq> 0 then w / 2 else tileWidth cfg / 4.5);
          radiusY = radiusX / 2.5
      in [BeginPath, Ellipse centerX centerY radiusX radiusY 0 0 (2 * pi),
          FillStyle ''rgba(40, 60, 20, 0.066)'', Fill])"

definition drawTuft :: "real \<Rightarrow> real \<Rightarrow> ctx_op list" where
  "drawTuft centerX centerY =
     (let size = 6 * SCALE
      in [StrokeStyle ''#B8CCDB'', LineWidth (2 * SCALE), LineCap ''round'', BeginPath,
          MoveTo (centerX - size) (centerY - size / 2),
          LineTo centerX (centerY + size / 2),
          LineTo (centerX + size) (centerY - size / 2),
          Stroke])"

text \<open>
  \<^verbatim>\<open>generateWavyEdge\<close>: the points \<open>i = 0, ..., segments\<close> along the edge, each moved
  across the edge by a sine of its position. (For an edge of length 0 the program
  divides by zero; the tile's edges are never such.)
\<close>

definition generateWavyEdge ::
  "real \<Rightarrow> real \<Rightarrow> real \<Rightarrow> real \<Rightarrow> real \<Rightarrow> real \<Rightarrow> nat \<Rightarrow> point list" where
  "generateWavyEdge startX startY endX endY waveAmplitude waveFrequency segments =
     (let dx = endX - startX;
          dy = endY - startY;
          len = sqrt (dx * dx + dy * dy);
          dirX = dx / len;
          dirY = dy / len;
          perpX = - dirY;
          perpY = dirX
      in map (\<lambda>i.
            let t = real i / real segments;
                baseX = startX + dx * t;
                baseY = startY + dy * t;
                phase = t * pi * 2 * waveFrequency;
                waveOffset = sin phase * waveAmplitude
            in (baseX + perpX * waveOffset, baseY + perpY * waveOffset))
          [0..<Suc segments])"

definition WAVE_AMPLITUDE :: real where
  "WAVE_AMPLITUDE = 3 * SCALE"

definition WAVE_FREQUENCY :: real where
  "WAVE_FREQUENCY = 2"

definition WAVE_SEGMENTS :: nat where
  "WAVE_SEGMENTS = 16"

text \<open>The four corners a side face is drawn from, named as the parameters are.\<close>

record Face =
  topLeft :: point
  topRight :: point
  bottomRight :: point
  bottomLeft :: point

text \<open>The local \<^verbatim>\<open>wavyBottom\<close> of \<^verbatim>\<open>drawWavyGrassSide\<close>: from bottom left to bottom right.\<close>

definition wavyBottom :: "Face \<Rightarrow> point list" where
  "wavyBottom f =
     generateWavyEdge (fst (bottomLeft f)) (snd (bottomLeft f))
       (fst (bottomRight f)) (snd (bottomRight f))
       WAVE_AMPLITUDE WAVE_FREQUENCY WAVE_SEGMENTS"

text \<open>
  The path of a grass side: the two top corners, the wavy bottom from its last point
  back to its first, and the top left corner again.
\<close>

definition drawWavyGrassSide :: "Face \<Rightarrow> string \<Rightarrow> string option \<Rightarrow> ctx_op list" where
  "drawWavyGrassSide f color strokeColor =
     (let w = wavyBottom f
      in [BeginPath, moveTo (topLeft f), lineTo (topRight f), lineTo (last w)]
         @ map lineTo (rev (butlast w))
         @ [lineTo (topLeft f), ClosePath, FillStyle color, Fill,
            StrokeStyle (stroke_or strokeColor color), LineWidth (1 * SCALE), Stroke])"

text \<open>The local \<^verbatim>\<open>wavyTop\<close> of \<^verbatim>\<open>drawWavySoilSide\<close>: from top left to top right.\<close>

definition wavyTop :: "Face \<Rightarrow> point list" where
  "wavyTop f =
     generateWavyEdge (fst (topLeft f)) (snd (topLeft f))
       (fst (topRight f)) (snd (topRight f))
       WAVE_AMPLITUDE WAVE_FREQUENCY WAVE_SEGMENTS"

definition drawWavySoilSide :: "Face \<Rightarrow> string \<Rightarrow> string option \<Rightarrow> ctx_op list" where
  "drawWavySoilSide f color strokeColor =
     (let w = wavyTop f
      in [BeginPath, moveTo (hd w)] @ map lineTo (tl w)
         @ [lineTo (bottomRight f), lineTo (bottomLeft f), lineTo (hd w), ClosePath,
            FillStyle color, Fill,
            StrokeStyle (stroke_or strokeColor color), LineWidth (1 * SCALE), Stroke])"

text \<open>
  \<^verbatim>\<open>drawIsoBlock\<close>. The corners of its four side faces, as the calls write them, with
  \<open>w = tileWidth\<close>, \<open>h = tileWidth / 2\<close>, \<open>topPointY = pixelY - h / 2\<close> and
  \<open>soilY = topPointY + grassHeight\<close>.
\<close>

definition topPointY :: "GridConfig \<Rightarrow> GridPosition \<Rightarrow> real" where
  "topPointY cfg pos = pixelY pos - ((tileWidth cfg / 2) / 2)"

definition soilY :: "GridConfig \<Rightarrow> GridPosition \<Rightarrow> real" where
  "soilY cfg pos = topPointY cfg pos + grassHeight cfg"

definition soilRight :: "GridConfig \<Rightarrow> GridPosition \<Rightarrow> Face" where
  "soilRight cfg pos =
     (let w = tileWidth cfg; h = tileWidth cfg / 2; px = pixelX pos; sy = soilY cfg pos
      in \<lparr>topLeft = (px, sy + h),
          topRight = (px + w / 2, sy + h / 2),
          bottomRight = (px + w / 2, sy + h / 2 + soilHeight cfg),
          bottomLeft = (px, sy + h + soilHeight cfg)\<rparr>)"

definition soilLeft :: "GridConfig \<Rightarrow> GridPosition \<Rightarrow> Face" where
  "soilLeft cfg pos =
     (let w = tileWidth cfg; h = tileWidth cfg / 2; px = pixelX pos; sy = soilY cfg pos
      in \<lparr>topLeft = (px - w / 2, sy + h / 2),
          topRight = (px, sy + h),
          bottomRight = (px, sy + h + soilHeight cfg),
          bottomLeft = (px - w / 2, sy + h / 2 + soilHeight cfg)\<rparr>)"

definition grassRight :: "GridConfig \<Rightarrow> GridPosition \<Rightarrow> Face" where
  "grassRight cfg pos =
     (let w = tileWidth cfg; h = tileWidth cfg / 2; px = pixelX pos; ty = topPointY cfg pos
      in \<lparr>topLeft = (px, ty + h),
          topRight = (px + w / 2, ty + h / 2),
          bottomRight = (px + w / 2, ty + h / 2 + grassHeight cfg),
          bottomLeft = (px, ty + h + grassHeight cfg)\<rparr>)"

definition grassLeft :: "GridConfig \<Rightarrow> GridPosition \<Rightarrow> Face" where
  "grassLeft cfg pos =
     (let w = tileWidth cfg; h = tileWidth cfg / 2; px = pixelX pos; ty = topPointY cfg pos
      in \<lparr>topLeft = (px - w / 2, ty + h / 2),
          topRight = (px, ty + h),
          bottomRight = (px, ty + h + grassHeight cfg),
          bottomLeft = (px - w / 2, ty + h / 2 + grassHeight cfg)\<rparr>)"

definition topVerts :: "GridConfig \<Rightarrow> GridPosition \<Rightarrow> point list" where
  "topVerts cfg pos =
     (let w = tileWidth cfg; h = tileWidth cfg / 2; px = pixelX pos; ty = topPointY cfg pos
      in [(px, ty), (px + w / 2, ty + h / 2), (px, ty + h), (px - w / 2, ty + h / 2)])"

record DrawIsoBlockOptions =
  hasShadow :: "bool option"
  shadowWidth :: "real option"
  drawTufts :: "bool option"

text \<open>The tuft of an empty tile: a hash of the grid address decides whether and where.\<close>

definition tuftOps :: "GridPosition \<Rightarrow> ctx_op list" where
  "tuftOps pos =
     (let seed = sin (gridX pos * 12.9898 + gridY pos * 78.233) * 43758.5453
      in if seed - of_int \<lfloor>seed\<rfloor> > 0.5
         then (let randX = js_rem (seed * 10) (20 * SCALE) - (10 * SCALE);
                   randY = js_rem (seed * 20) (10 * SCALE) - (5 * SCALE)
               in drawTuft (pixelX pos + randX) (pixelY pos + randY))
         else [])"

definition drawIsoBlock :: "GridConfig \<Rightarrow> GridPosition \<Rightarrow> DrawIsoBlockOptions \<Rightarrow> ctx_op list" where
  "drawIsoBlock cfg pos options =
     (let shadow = (case hasShadow options of None \<Rightarrow> False | Some v \<Rightarrow> v);
          tufts = (case drawTufts options of None \<Rightarrow> False | Some v \<Rightarrow> v)
      in drawWavySoilSide (soilRight cfg pos) ''#6E757A'' None
         @ drawWavySoilSide (soilLeft cfg pos) ''#8B9298'' None
         @ drawWavyGrassSide (grassRight cfg pos) ''#C5D6E3'' None
         @ drawWavyGrassSide (grassLeft cfg pos) ''#D4E2ED'' None
         @ drawPoly (topVerts cfg pos) ''#E8F0F8'' (Some ''#CDE0EC'')
         @ (if shadow then drawShadow cfg (pixelX pos) (pixelY pos) (shadowWidth options) else [])
         @ (if tufts \<and> \<not> shadow then tuftOps pos else []))"

text \<open>The points a sequence of context calls moves or draws a line to, in order.\<close>

fun pathPoints :: "ctx_op list \<Rightarrow> point list" where
  "pathPoints [] = []"
| "pathPoints (MoveTo px py # ops) = (px, py) # pathPoints ops"
| "pathPoints (LineTo px py # ops) = (px, py) # pathPoints ops"
| "pathPoints (other # ops) = pathPoints ops"

section \<open>grid.ts: the content anchor of a sprite\<close>

text \<open>
  \<^verbatim>\<open>detectTreeContentPosition\<close> draws the image on a temporary canvas of the image's size
  and reads the canvas back. The model of the image is its size and the array read
  back: four samples a pixel (red, green, blue, alpha), row by row from the top.
\<close>

record Image =
  imageWidth :: nat
  imageHeight :: nat
  imageData :: "int list"

record ContentAnchor =
  xOffset :: real
  yPadding :: int
  contentWidth :: int

text \<open>\<^verbatim>\<open>data[index] ?? 0\<close>: a read past the end of the array gives 0.\<close>

definition sampleAt :: "int list \<Rightarrow> nat \<Rightarrow> int" where
  "sampleAt d i = (if i < length d then d ! i else 0)"

text \<open>
  One step of the inner loop over the columns of row \<open>y\<close>; the state is
  \<open>(hasPixels, totalDarkness, pixelCount)\<close>.
\<close>

definition scanPixel :: "Image \<Rightarrow> nat \<Rightarrow> nat \<Rightarrow> bool \<times> real \<times> nat \<Rightarrow> bool \<times> real \<times> nat" where
  "scanPixel img y x = (\<lambda>(hasPixels, totalDarkness, pixelCount).
     let index = (y * imageWidth img + x) * 4;
         r = sampleAt (imageData img) index;
         g = sampleAt (imageData img) (index + 1);
         b = sampleAt (imageData img) (index + 2);
         alpha = sampleAt (imageData img) (index + 3)
     in if alpha > 245
        then (let bright = r + g + b;
                  darkness = (765 - of_int bright) * (of_int alpha / 255)
              in (True, totalDarkness + darkness, pixelCount + 1))
        else (hasPixels, totalDarkness, pixelCount))"

definition scanRow :: "Image \<Rightarrow> nat \<Rightarrow> bool \<times> real \<times> nat" where
  "scanRow img y = fold (scanPixel img y) [0..<imageWidth img] (False, 0, 0)"

text \<open>
  The outer loop runs \<open>y\<close> from \<open>height - 1\<close> down to 0. \<open>scanRows img n cands\<close> is the
  loop with the rows \<open>n - 1, ..., 0\<close> still to come and the candidates found so far,
  each a pair of a row and its average darkness. The loop is left as soon as there
  are more candidates than 0.3 times the height.
\<close>

fun scanRows :: "Image \<Rightarrow> nat \<Rightarrow> (nat \<times> real) list \<Rightarrow> (nat \<times> real) list" where
  "scanRows img 0 cands = cands"
| "scanRows img (Suc y) cands =
     (case scanRow img y of
        (hasPixels, totalDarkness, pixelCount) \<Rightarrow>
          if hasPixels \<and> pixelCount > 0
          then (let avgDarkness = totalDarkness / real pixelCount;
                    cands' = cands @ [(y, avgDarkness)]
                in if real (length cands') > real (imageHeight img) * 0.3
                   then cands'
                   else scanRows img y cands')
          else scanRows img y cands)"

text \<open>The first of the candidates that no other candidate is darker than.\<close>

definition darkestRow :: "(nat \<times> real) list \<Rightarrow> nat \<times> real" where
  "darkestRow cands =
     fold (\<lambda>candidate darkest. if snd candidate > snd darkest then candidate else darkest)
       cands (hd cands)"

text \<open>The scan of the chosen row for its leftmost and rightmost solid pixel.\<close>

definition scanEdges :: "Image \<Rightarrow> nat \<Rightarrow> int \<times> int" where
  "scanEdges img bottomY =
     fold (\<lambda>x (leftmost, rightmost).
             let index = (bottomY * imageWidth img + x) * 4;
                 alpha = sampleAt (imageData img) (index + 3)
             in if alpha > 245
                then (if int x < leftmost then int x else leftmost,
                      if int x > rightmost then int x else rightmost)
                else (leftmost, rightmost))
       [0..<imageWidth img] (int (imageWidth img), -1)"

definition detectTreeContentPosition :: "Image \<Rightarrow> ContentAnchor" where
  "detectTreeContentPosition img =
     (let candidateRows = scanRows img (imageHeight img) []
      in if candidateRows = []
         then \<lparr>xOffset = 0, yPadding = 0, contentWidth = 0\<rparr>
         else (let bottomY = fst (darkestRow candidateRows);
                   yPad = int (imageHeight img) - int bottomY - 1
               in case scanEdges img bottomY of
                    (leftmost, rightmost) \<Rightarrow>
                      (let contentCenterX = (of_int leftmost + of_int rightmost) / 2;
                           imageCenterX = real (imageWidth img) / 2
                       in \<lparr>xOffset = contentCenterX - imageCenterX,
                           yPadding = yPad,
                           contentWidth = rightmost - leftmost + 1\<rparr>)))"

text \<open>
  Rasters for the detector. \<open>solidRectangle\<close>: transparent (alpha 0) except for a
  rectangle of opaque pixels (alpha 255) over the rows \<open>R0..R1\<close> and the columns
  \<open>C0..C1\<close>; the colours are free. \<open>oneColourRectangle\<close>: the same, with one colour for
  all pixels of the rectangle.
\<close>

definition pixelAt :: "Image \<Rightarrow> nat \<Rightarrow> nat \<Rightarrow> int \<times> int \<times> int \<times> int" where
  "pixelAt img x y =
     (let index = (y * imageWidth img + x) * 4; d = imageData img
      in (sampleAt d index, sampleAt d (index + 1), sampleAt d (index + 2), sampleAt d (index + 3)))"

definition solidRectangle :: "Image \<Rightarrow> nat \<Rightarrow> nat \<Rightarrow> nat \<Rightarrow> nat \<Rightarrow> bool" where
  "solidRectangle img R0 R1 C0 C1 =
     (length (imageData img) = 4 * imageWidth img * imageHeight img
      \<and> R0 \<le> R1 \<and> R1 < imageHeight img \<and> C0 \<le> C1 \<and> C1 < imageWidth img
      \<and> list_all (\<lambda>y. list_all (\<lambda>x.
            if R0 \<le> y \<and> y \<le> R1 \<and> C0 \<le> x \<and> x \<le> C1
            then snd (snd (snd (pixelAt img x y))) = 255
            else snd (snd (snd (pixelAt img x y))) = 0)
          [0..<imageWidth img]) [0..<imageHeight img])"

definition oneColourRectangle ::
  "Image \<Rightarrow> nat \<Rightarrow> nat \<Rightarrow> nat \<Rightarrow> nat \<Rightarrow> int \<times> int \<times> int \<Rightarrow> bool" where
  "oneColourRectangle img R0 R1 C0 C1 colour =
     (length (imageData img) = 4 * imageWidth img * imageHeight img
      \<and> R0 \<le> R1 \<and> R1 < imageHeight img \<and> C0 \<le> C1 \<and> C1 < imageWidth img
      \<and> list_all (\<lambda>y. list_all (\<lambda>x.
            if R0 \<le> y \<and> y \<le> R1 \<and> C0 \<le> x \<and> x \<le> C1
            then pixelAt img x y = (fst colour, fst (snd colour), snd (snd colour), 255)
            else snd (snd (snd (pixelAt img x y))) = 0)
          [0..<imageWidth img]) [0..<imageHeight img])"

text \<open>
  The darkness of a pixel of that rectangle, and the candidate lists the scan of such
  a raster goes through: the first candidate is row \<open>R1\<close>, and all have one darkness.
\<close>

definition rectDarkness :: "int \<times> int \<times> int \<Rightarrow> real" where
  "rectDarkness colour = 765 - of_int (fst colour + fst (snd colour) + snd (snd colour))"

definition uniformFrom :: "nat \<Rightarrow> real \<Rightarrow> (nat \<times> real) list \<Rightarrow> bool" where
  "uniformFrom R1 dk cands =
     (cands \<noteq> [] \<and> hd cands = (R1, dk) \<and> list_all (\<lambda>c. snd c = dk) cands)"

text \<open>
  Four rasters to run the detector on. \<open>rectSprite\<close> is 3 wide and 4 high with a
  rectangle of colour \<open>(10, 20, 30)\<close> over the rows 1..2 and the columns 1..2.
  \<open>twoColourSprite\<close> is 2 wide and 4 high with an opaque rectangle over the rows 2..3
  and both columns, black in row 2 and of colour \<open>(250, 250, 250)\<close> in row 3.
  \<open>topPixelSprite\<close> is 1 wide and 10 high, transparent but for an opaque black pixel in
  row 0, the top row. \<open>columnSprite\<close> is 1 wide and 10 high and opaque throughout, white
  but for a black pixel in row 6.
\<close>

definition rectSprite :: Image where
  "rectSprite =
     \<lparr>imageWidth = 3, imageHeight = 4,
      imageData =
        [0, 0, 0, 0,  0, 0, 0, 0,  0, 0, 0, 0]
        @ [0, 0, 0, 0,  10, 20, 30, 255,  10, 20, 30, 255]
        @ [0, 0, 0, 0,  10, 20, 30, 255,  10, 20, 30, 255]
        @ [0, 0, 0, 0,  0, 0, 0, 0,  0, 0, 0, 0]\<rparr>"

definition twoColourSprite :: Image where
  "twoColourSprite =
     \<lparr>imageWidth = 2, imageHeight = 4,
      imageData =
        [0, 0, 0, 0,  0, 0, 0, 0]
        @ [0, 0, 0, 0,  0, 0, 0, 0]
        @ [0, 0, 0, 255,  0, 0, 0, 255]
        @ [250, 250, 250, 255,  250, 250, 250, 255]\<rparr>"

definition topPixelSprite :: Image where
  "topPixelSprite =
     \<lparr>imageWidth = 1, imageHeight = 10, imageData = [0, 0, 0, 255] @ replicate 36 0\<rparr>"

definition columnSprite :: Image where
  "columnSprite =
     \<lparr>imageWidth = 1, imageHeight = 10,
      imageData =
        concat (replicate 6 [255, 255, 255, 255]) @ [0, 0, 0, 255]
        @ concat (replicate 3 [255, 255, 255, 255])\<rparr>"

section \<open>filters.ts: the catalog\<close>

record ColorOverlay =
  overlayR :: real
  overlayG :: real
  overlayB :: real
  opacity :: real

record CanvasAdjustments =
  brightness :: real
  contrast :: real
  saturation :: real
  hue :: real
  colorOverlay :: "ColorOverlay option"
  temperature :: "real option"

record FilterConfig =
  name :: string
  description :: string
  ffmpegFilter :: string
  canvasAdjustments :: CanvasAdjustments

definition FILTERS_none :: FilterConfig where
  "FILTERS_none =
     \<lparr>name = ''none'', description = ''No filter applied'', ffmpegFilter = '''',
      canvasAdjustments =
        \<lparr>brightness = 0, contrast = 0, saturation = 1, hue = 0,
         colorOverlay = None, temperature = None\<rparr>\<rparr>"

definition FILTERS_winter :: FilterConfig where
  "FILTERS_winter =
     \<lparr>name = ''winter'', description = ''Cool blue tones with slight desaturation'',
      ffmpegFilter =
        ''colorbalance=bs=0.15:bm=0.1:bh=0.05:rs=-0.1:gs=-0.05,eq=brightness=0.05:saturation=0.85'',
      canvasAdjustments =
        \<lparr>brightness = 5, contrast = 5, saturation = 0.85, hue = -10,
         colorOverlay = Some \<lparr>overlayR = 200, overlayG = 220, overlayB = 255, opacity = 0.08\<rparr>,
         temperature = Some (-30)\<rparr>\<rparr>"

definition FILTERS_autumn :: FilterConfig where
  "FILTERS_autumn =
     \<lparr>name = ''autumn'', description = ''Warm orange and golden tones'',
      ffmpegFilter =
        ''colorbalance=rs=0.15:rm=0.1:rh=0.05:gs=0.05:bs=-0.1:bm=-0.1,eq=saturation=1.2:contrast=1.05'',
      canvasAdjustments =
        \<lparr>brightness = 0, contrast = 8, saturation = 1.2, hue = 15,
         colorOverlay = Some \<lparr>overlayR = 255, overlayG = 180, overlayB = 100, opacity = 0.06\<rparr>,
         temperature = Some 40\<rparr>\<rparr>"

definition FILTERS_spring :: FilterConfig where
  "FILTERS_spring =
     \<lparr>name = ''spring'', description = ''Fresh, vibrant greens and soft tones'',
      ffmpegFilter = ''colorbalance=gs=0.1:gm=0.08:rs=0.05,eq=brightness=0.08:saturation=1.15'',
      canvasAdjustments =
        \<lparr>brightness = 8, contrast = 3, saturation = 1.15, hue = 5,
         colorOverlay = Some \<lparr>overlayR = 220, overlayG = 255, overlayB = 220, opacity = 0.05\<rparr>,
         temperature = Some 10\<rparr>\<rparr>"

definition FILTERS_summer :: FilterConfig where
  "FILTERS_summer =
     \<lparr>name = ''summer'', description = ''Bright, warm golden hour feel'',
      ffmpegFilter =
        ''colorbalance=rs=0.1:rm=0.08:gs=0.05:bs=-0.05,eq=brightness=0.1:saturation=1.1:contrast=1.05'',
      canvasAdjustments =
        \<lparr>brightness = 10, contrast = 5, saturation = 1.1, hue = 10,
         colorOverlay = Some \<lparr>overlayR = 255, overlayG = 240, overlayB = 200, opacity = 0.07\<rparr>,
         temperature = Some 25\<rparr>\<rparr>"

definition FILTERS_night :: FilterConfig where
  "FILTERS_night =
     \<lparr>name = ''night'', description = ''Dark blue moonlit atmosphere'',
      ffmpegFilter =
        ''colorbalance=bs=0.25:bm=0.2:bh=0.15:rs=-0.15:gs=-0.1,eq=brightness=-0.15:saturation=0.7:contrast=1.1'',
      canvasAdjustments =
        \<lparr>brightness = -15, contrast = 10, saturation = 0.7, hue = -20,
         colorOverlay = Some \<lparr>overlayR = 50, overlayG = 80, overlayB = 150, opacity = 0.15\<rparr>,
         temperature = Some (-50)\<rparr>\<rparr>"

definition FILTERS_sepia :: FilterConfig where
  "FILTERS_sepia =
     \<lparr>name = ''sepia'', description = ''Classic sepia/vintage brown tones'',
      ffmpegFilter = ''colorchannelmixer=.393:.769:.189:0:.349:.686:.168:0:.272:.534:.131'',
      canvasAdjustments =
        \<lparr>brightness = 0, contrast = 5, saturation = 0.3, hue = 30,
         colorOverlay = Some \<lparr>overlayR = 210, overlayG = 180, overlayB = 140, opacity = 0.2\<rparr>,
         temperature = Some 30\<rparr>\<rparr>"

definition FILTERS_vintage :: FilterConfig where
  "FILTERS_vintage =
     \<lparr>name = ''vintage'', description = ''Faded retro film look'',
      ffmpegFilter = ''curves=vintage,eq=saturation=0.9:contrast=0.95'',
      canvasAdjustments =
        \<lparr>brightness = 5, contrast = -5, saturation = 0.9, hue = 5,
         colorOverlay = Some \<lparr>overlayR = 250, overlayG = 240, overlayB = 230, opacity = 0.1\<rparr>,
         temperature = Some 15\<rparr>\<rparr>"

text \<open>The own properties of the object \<^verbatim>\<open>FILTERS\<close>, in the order they are written.\<close>

definition FILTERS :: "(string \<times> FilterConfig) list" where
  "FILTERS =
     [(''none'', FILTERS_none), (''winter'', FILTERS_winter), (''autumn'', FILTERS_autumn),
      (''spring'', FILTERS_spring), (''summer'', FILTERS_summer), (''night'', FILTERS_night),
      (''sepia'', FILTERS_sepia), (''vintage'', FILTERS_vintage)]"

text \<open>
  \<^verbatim>\<open>FILTERS\<close> is written as an object literal, so \<^verbatim>\<open>FILTERS[name]\<close> is a property
  read: the object's own property of that name when it has one, else the property that
  every object inherits from \<^verbatim>\<open>Object.prototype\<close> under that name (a function, or the
  prototype itself for \<^verbatim>\<open>__proto__\<close>), else \<^verbatim>\<open>undefined\<close>. The parameter type
  \<^verbatim>\<open>FilterName\<close> admits the eight catalog names only; at run time any string arrives.
\<close>

definition Object_prototype_keys :: "string list" where
  "Object_prototype_keys =
     [''constructor'', ''__defineGetter__'', ''__defineSetter__'', ''hasOwnProperty'',
      ''__lookupGetter__'', ''__lookupSetter__'', ''isPrototypeOf'', ''propertyIsEnumerable'',
      ''toString'', ''valueOf'', ''__proto__'', ''toLocaleString'']"

datatype js_value = Config FilterConfig | Inherited string | Undefined

definition FILTERS_get :: "string \<Rightarrow> js_value" where
  "FILTERS_get key =
     (case map_of FILTERS key of
        Some f \<Rightarrow> Config f
      | None \<Rightarrow> if key \<in> set Object_prototype_keys then Inherited key else Undefined)"

text \<open>\<^verbatim>\<open>FILTERS[name] || FILTERS.none\<close>: objects and functions are truthy, \<^verbatim>\<open>undefined\<close> is not.\<close>

definition getFilter :: "string \<Rightarrow> js_value" where
  "getFilter key = (case FILTERS_get key of Undefined \<Rightarrow> Config FILTERS_none | v \<Rightarrow> v)"

section \<open>filters.ts: the raster transform\<close>

text \<open>
  The adjustments of one pixel with alpha other than 0. The loop body changes the
  three channels \<open>r\<close>, \<open>g\<close>, \<open>b\<close> in five guarded blocks, one after the other:
  temperature, saturation, brightness, contrast, colour overlay. Each block is a
  function of the three channels. The channels are numbers from here on; nothing is
  rounded before the values are stored.
\<close>

type_synonym rgb = "real \<times> real \<times> real"

definition temperatureBlock :: "real option \<Rightarrow> rgb \<Rightarrow> rgb" where
  "temperatureBlock temp = (\<lambda>(r, g, b).
     case temp of
       None \<Rightarrow> (r, g, b)
     | Some t \<Rightarrow>
         if t \<noteq> 0
         then (let tempFactor = t / 100
               in if tempFactor > 0
                  then (min 255 (r + tempFactor * 30),
                        min 255 (g + tempFactor * 10),
                        max 0 (b - tempFactor * 20))
                  else (max 0 (r + tempFactor * 20),
                        g,
                        min 255 (b - tempFactor * 30)))
         else (r, g, b))"

definition saturationBlock :: "real \<Rightarrow> rgb \<Rightarrow> rgb" where
  "saturationBlock sat = (\<lambda>(r, g, b).
     if sat \<noteq> 1
     then (let gray = 0.299 * r + 0.587 * g + 0.114 * b
           in (gray + sat * (r - gray), gray + sat * (g - gray), gray + sat * (b - gray)))
     else (r, g, b))"

definition brightnessBlock :: "real \<Rightarrow> rgb \<Rightarrow> rgb" where
  "brightnessBlock br = (\<lambda>(r, g, b).
     if br \<noteq> 0
     then (let brightFactor = br * 2.55
           in (r + brightFactor, g + brightFactor, b + brightFactor))
     else (r, g, b))"

definition contrastBlock :: "real \<Rightarrow> rgb \<Rightarrow> rgb" where
  "contrastBlock c = (\<lambda>(r, g, b).
     if c \<noteq> 0
     then (let contrastFactor = (259 * (c + 255)) / (255 * (259 - c))
           in (contrastFactor * (r - 128) + 128,
               contrastFactor * (g - 128) + 128,
               contrastFactor * (b - 128) + 128))
     else (r, g, b))"

definition overlayBlock :: "ColorOverlay option \<Rightarrow> rgb \<Rightarrow> rgb" where
  "overlayBlock ov = (\<lambda>(r, g, b).
     case ov of
       None \<Rightarrow> (r, g, b)
     | Some overlay \<Rightarrow>
         if opacity overlay > 0
         then (r * (1 - opacity overlay) + overlayR overlay * opacity overlay,
               g * (1 - opacity overlay) + overlayG overlay * opacity overlay,
               b * (1 - opacity overlay) + overlayB overlay * opacity overlay)
         else (r, g, b))"

definition adjustPixel :: "CanvasAdjustments \<Rightarrow> rgb \<Rightarrow> rgb" where
  "adjustPixel adj p =
     overlayBlock (colorOverlay adj)
       (contrastBlock (contrast adj)
         (brightnessBlock (brightness adj)
           (saturationBlock (saturation adj)
             (temperatureBlock (temperature adj) p))))"

text \<open>
  The pixel array is a \<^verbatim>\<open>Uint8ClampedArray\<close>: a number stored into it is converted by
  the language's \<^verbatim>\<open>ToUint8Clamp\<close> (clamp to 0..255, then round, a tie to the even side).
\<close>

definition toUint8Clamp :: "real \<Rightarrow> int" where
  "toUint8Clamp x =
     (let clamped = min (max x 0) 255;
          f = \<lfloor>clamped\<rfloor>
      in if clamped < of_int f + 0.5 then f
         else if clamped > of_int f + 0.5 then f + 1
         else if even f then f else f + 1)"

text \<open>\<^verbatim>\<open>data[i] = Math.max(0, Math.min(255, Math.round(v)))\<close>.\<close>

definition storeChannel :: "real \<Rightarrow> int" where
  "storeChannel v = toUint8Clamp (max 0 (min 255 (Math_round v)))"

text \<open>
  The loop over the array, four samples a step: red, green, blue, alpha. A pixel
  whose alpha is 0 is skipped; alpha is never assigned. The array of an image holds
  \<open>4 \<cdot> width \<cdot> height\<close> samples, so the last equation is reached with the empty list only.
\<close>

fun adjustData :: "CanvasAdjustments \<Rightarrow> int list \<Rightarrow> int list" where
  "adjustData adj (r # g # b # a # rest) =
     (if a = 0 then r # g # b # a # adjustData adj rest
      else (case adjustPixel adj (of_int r, of_int g, of_int b) of
              (r', g', b') \<Rightarrow>
                storeChannel r' # storeChannel g' # storeChannel b' # a # adjustData adj rest))"
| "adjustData adj xs = xs"

text \<open>
  With a value that is not a preset, \<^verbatim>\<open>filter.canvasAdjustments\<close> is \<^verbatim>\<open>undefined\<close>, and
  the first pixel that is not skipped reads \<^verbatim>\<open>adj.temperature\<close> from it, which raises a
  \<^verbatim>\<open>TypeError\<close>; the loop passes only when every pixel is skipped.
\<close>

fun allSkipped :: "int list \<Rightarrow> bool" where
  "allSkipped (r # g # b # a # rest) = (a = 0 \<and> allSkipped rest)"
| "allSkipped xs = True"

datatype js_error = TypeError

text \<open>
  \<^verbatim>\<open>applyCanvasFilter\<close> reads the whole canvas with \<^verbatim>\<open>getImageData\<close>, changes the array
  and writes it back with \<^verbatim>\<open>putImageData\<close>. The model takes the array read and returns
  the array written back; when the call raises, nothing is written back. For the name
  \<open>none\<close> the function returns before it reads the canvas.
\<close>

definition applyCanvasFilter :: "int list \<Rightarrow> string \<Rightarrow> js_error + int list" where
  "applyCanvasFilter d filterName =
     (let flt = getFilter filterName
      in if filterName = ''none'' then Inr d
         else (case flt of
                 Config preset \<Rightarrow> Inr (adjustData (canvasAdjustments preset) d)
               | other \<Rightarrow> if allSkipped d then Inr d else Inl TypeError))"

text \<open>A sample is a byte; the array of an image is made of whole pixels of four bytes.\<close>

definition is_byte :: "int \<Rightarrow> bool" where
  "is_byte v = (0 \<le> v \<and> v \<le> 255)"

definition validImageData :: "int list \<Rightarrow> bool" where
  "validImageData d = (length d mod 4 = 0 \<and> list_all is_byte d)"

text \<open>
  The pipeline in the words of the specification, for comparison with \<open>adjustPixel\<close>:
  six stages, each a function of the three channels.
\<close>

definition stage_temperature_unclamped :: "real option \<Rightarrow> rgb \<Rightarrow> rgb" where
  "stage_temperature_unclamped temp = (\<lambda>(r, g, b).
     case temp of
       None \<Rightarrow> (r, g, b)
     | Some t \<Rightarrow>
         (let f = t / 100
          in if f > 0 then (r + 30 * f, g + 10 * f, b - 20 * f)
             else if f < 0 then (r + 20 * f, g, b - 30 * f)
             else (r, g, b)))"

definition stage_temperature :: "real option \<Rightarrow> rgb \<Rightarrow> rgb" where
  "stage_temperature temp = (\<lambda>(r, g, b).
     case temp of
       None \<Rightarrow> (r, g, b)
     | Some t \<Rightarrow>
         (let f = t / 100
          in if f > 0 then (min 255 (r + 30 * f), min 255 (g + 10 * f), max 0 (b - 20 * f))
             else if f < 0 then (max 0 (r + 20 * f), g, min 255 (b - 30 * f))
             else (r, g, b)))"

definition luma :: "rgb \<Rightarrow> real" where
  "luma = (\<lambda>(r, g, b). 0.299 * r + 0.587 * g + 0.114 * b)"

definition stage_saturation :: "real \<Rightarrow> rgb \<Rightarrow> rgb" where
  "stage_saturation s = (\<lambda>(r, g, b).
     let y = luma (r, g, b) in (y + s * (r - y), y + s * (g - y), y + s * (b - y)))"

definition stage_brightness :: "real \<Rightarrow> rgb \<Rightarrow> rgb" where
  "stage_brightness br = (\<lambda>(r, g, b). (r + br * 2.55, g + br * 2.55, b + br * 2.55))"

definition stage_contrast :: "real \<Rightarrow> rgb \<Rightarrow> rgb" where
  "stage_contrast c = (\<lambda>(r, g, b).
     let gain = (259 * (c + 255)) / (255 * (259 - c))
     in (gain * (r - 128) + 128, gain * (g - 128) + 128, gain * (b - 128) + 128))"

definition stage_overlay :: "ColorOverlay option \<Rightarrow> rgb \<Rightarrow> rgb" where
  "stage_overlay ov = (\<lambda>(r, g, b).
     case ov of
       None \<Rightarrow> (r, g, b)
     | Some ovl \<Rightarrow>
         if opacity ovl > 0
         then (r * (1 - opacity ovl) + overlayR ovl * opacity ovl,
               g * (1 - opacity ovl) + overlayG ovl * opacity ovl,
               b * (1 - opacity ovl) + overlayB ovl * opacity ovl)
         else (r, g, b))"

text \<open>Clamp to 0..255, then round to the nearest integer.\<close>

definition clamp_round :: "real \<Rightarrow> int" where
  "clamp_round v = \<lfloor>max 0 (min 255 v) + 1 / 2\<rfloor>"

definition stage_final :: "rgb \<Rightarrow> int \<times> int \<times> int" where
  "stage_final = (\<lambda>(r, g, b). (clamp_round r, clamp_round g, clamp_round b))"

text \<open>The six stages as the specification lists them: the temperature shift does not clamp.\<close>

definition spec_pipeline :: "CanvasAdjustments \<Rightarrow> rgb \<Rightarrow> int \<times> int \<times> int" where
  "spec_pipeline adj p =
     stage_final (stage_overlay (colorOverlay adj) (stage_contrast (contrast adj)
       (stage_brightness (brightness adj) (stage_saturation (saturation adj)
         (stage_temperature_unclamped (temperature adj) p)))))"

text \<open>The same six stages with the temperature shift that clamps on one side.\<close>

definition clamped_pipeline :: "CanvasAdjustments \<Rightarrow> rgb \<Rightarrow> int \<times> int \<times> int" where
  "clamped_pipeline adj p =
     stage_final (stage_overlay (colorOverlay adj) (stage_contrast (contrast adj)
       (stage_brightness (brightness adj) (stage_saturation (saturation adj)
         (stage_temperature (temperature adj) p)))))"

section \<open>Results on grid.ts: geometry and paint order\<close>

lemma insert_by_insort_key:
  "insert_by (\<lambda>a b. f a - f b) x ys = insort_key f x ys"
  by (induction ys) auto

lemma Array_sort_sort_key: "Array_sort (\<lambda>a b. f a - f b) xs = sort_key f xs"
  by (induction xs) (simp_all add: Array_sort_def insert_by_insort_key sort_key_def)

lemma sortPositions_sort_key:
  "sortPositionsForRendering ps = sort_key (\<lambda>p. gridY p + gridX p) ps"
  unfolding sortPositionsForRendering_def by (rule Array_sort_sort_key)

text \<open>
  C2. For every sequence of grid positions, \<^verbatim>\<open>sortPositionsForRendering\<close> returns a
  permutation of its input in which \<open>gridX + gridY\<close> never decreases, and the positions
  with one and the same sum stand in the order they had in the input.
\<close>

theorem C2_paint_order:
  "mset (sortPositionsForRendering ps) = mset ps
   \<and> sorted (map (\<lambda>p. gridX p + gridY p) (sortPositionsForRendering ps))
   \<and> (\<forall>k. filter (\<lambda>p. gridX p + gridY p = k) (sortPositionsForRendering ps)
          = filter (\<lambda>p. gridX p + gridY p = k) ps)"
proof -
  have k: "\<And>p. gridY p + gridX p = gridX p + gridY p"
    by simp
  show ?thesis
    unfolding sortPositions_sort_key k by (simp add: sort_key_stable)
qed

text \<open>
  C8. The configured tile is 400 wide with 60 of grass and 160 of soil. For a grid of
  size 3 the canvas is 1840 by 1840, and a grid of size 1 on a canvas 1840 wide has the
  single position \<open>(0, 0)\<close> at pixel \<open>(920, 700)\<close>.
\<close>

theorem C8_concrete_scenario:
  "tileWidth GRID_CONFIG = 400 \<and> grassHeight GRID_CONFIG = 60 \<and> soilHeight GRID_CONFIG = 160
   \<and> calculateCanvasDimensions GRID_CONFIG 3 = \<lparr>width = 1840, height = 1840\<rparr>
   \<and> generateGridPositions GRID_CONFIG 1 1840
       = [\<lparr>gridX = 0, gridY = 0, pixelX = 920, pixelY = 700\<rparr>]"
  by (simp add: GRID_CONFIG_def SCALE_def calculateCanvasDimensions_def
      generateGridPositions_def tilePosition_def Math_round_def)

text \<open>
  C5 (as stated, refuted). A grid size of 0 and a tile of width 0 are not rejected: the
  two operations return a canvas and a list of positions for them.
\<close>

theorem C5_counterexample:
  "\<not> is_rejected (calculateCanvasDimensions_call GRID_CONFIG 0)
   \<and> calculateCanvasDimensions GRID_CONFIG 0 = \<lparr>width = 1240, height = 1240\<rparr>
   \<and> \<not> is_rejected (generateGridPositions_call GRID_CONFIG 0 1840)
   \<and> generateGridPositions GRID_CONFIG 0 1840 = []
   \<and> \<not> is_rejected (calculateCanvasDimensions_call (GRID_CONFIG\<lparr>tileWidth := 0\<rparr>) 3)
   \<and> calculateCanvasDimensions (GRID_CONFIG\<lparr>tileWidth := 0\<rparr>) 3
       = \<lparr>width = 1240, height = 1240\<rparr>
   \<and> \<not> is_rejected (generateGridPositions_call (GRID_CONFIG\<lparr>tileWidth := 0\<rparr>) 1 1840)
   \<and> generateGridPositions (GRID_CONFIG\<lparr>tileWidth := 0\<rparr>) 1 1840
       = [\<lparr>gridX = 0, gridY = 0, pixelX = 920, pixelY = 600\<rparr>]"
  by (simp add: GRID_CONFIG_def SCALE_def calculateCanvasDimensions_def
      generateGridPositions_def tilePosition_def Math_round_def is_rejected_def
      calculateCanvasDimensions_call_def generateGridPositions_call_def)

text \<open>
  C5 (amended). The two operations validate nothing and never fail. For every grid size
  and every configuration \<^verbatim>\<open>calculateCanvasDimensions\<close> returns the square canvas whose
  side is the larger of \<open>n \<cdot> tileWidth + 400\<close> and
  \<open>n \<cdot> tileWidth / 2 + 2 \<cdot> (soilHeight + grassHeight) + 800\<close>, and for every grid size
  that is not positive \<^verbatim>\<open>generateGridPositions\<close> returns the empty sequence.
\<close>

theorem C5_no_validation:
  "calculateCanvasDimensions_call cfg n =
     Returned \<lparr>width = max (n * tileWidth cfg + 400)
                          (n * tileWidth cfg / 2 + 2 * (soilHeight cfg + grassHeight cfg) + 800),
               height = max (n * tileWidth cfg + 400)
                          (n * tileWidth cfg / 2 + 2 * (soilHeight cfg + grassHeight cfg) + 800)\<rparr>
   \<and> \<not> is_rejected (generateGridPositions_call cfg n cw)
   \<and> (n \<le> 0 \<longrightarrow> generateGridPositions_call cfg n cw = Returned [])"
proof -
  have "n \<le> 0 \<Longrightarrow> nat \<lceil>n\<rceil> = 0"
    by (simp add: ceiling_le_zero)
  then show ?thesis
    by (simp add: calculateCanvasDimensions_call_def calculateCanvasDimensions_def SCALE_def
        generateGridPositions_call_def generateGridPositions_def is_rejected_def Let_def
        mult.commute)
qed

theorem C5_no_validation_witness:
  "(-2::real) \<le> 0
   \<and> generateGridPositions_call GRID_CONFIG (-2) 1840 = Returned []
   \<and> calculateCanvasDimensions_call GRID_CONFIG (-2) = Returned \<lparr>width = 840, height = 840\<rparr>"
  using C5_no_validation [of GRID_CONFIG "-2" 1840]
  by (simp add: GRID_CONFIG_def SCALE_def)

section \<open>Results on grid.ts: the seam between grass and soil\<close>

lemma length_generateWavyEdge:
  "length (generateWavyEdge sx sy ex ey a fr n) = Suc n"
  by (simp add: generateWavyEdge_def Let_def)

lemma generateWavyEdge_nonempty: "generateWavyEdge sx sy ex ey a fr n \<noteq> []"
  using length_generateWavyEdge [of sx sy ex ey a fr n] by auto

lemma pathPoints_append: "pathPoints (xs @ ys) = pathPoints xs @ pathPoints ys"
  by (induction xs rule: pathPoints.induct) simp_all

lemma pathPoints_lineTo: "pathPoints (map lineTo ps) = ps"
  by (induction ps) (simp_all add: lineTo_def)

lemma pathPoints_soil:
  "pathPoints (drawWavySoilSide f c sc)
     = wavyTop f @ [bottomRight f, bottomLeft f, hd (wavyTop f)]"
proof -
  have "wavyTop f \<noteq> []"
    by (simp add: wavyTop_def generateWavyEdge_nonempty)
  then have "hd (wavyTop f) # tl (wavyTop f) = wavyTop f"
    by simp
  then show ?thesis
    by (simp add: drawWavySoilSide_def Let_def pathPoints_append pathPoints_lineTo
        lineTo_def moveTo_def del: hd_Cons_tl)
qed

lemma pathPoints_grass:
  "pathPoints (drawWavyGrassSide f c sc)
     = [topLeft f, topRight f] @ rev (wavyBottom f) @ [topLeft f]"
proof -
  have "wavyBottom f \<noteq> []"
    by (simp add: wavyBottom_def generateWavyEdge_nonempty)
  then have "last (wavyBottom f) # rev (butlast (wavyBottom f)) = rev (wavyBottom f)"
    by (metis append_butlast_last_id rev.simps(2) rev_rev_ident rev_singleton_conv rev_append
        append_Cons append_Nil)
  then show ?thesis
    by (simp add: drawWavyGrassSide_def Let_def pathPoints_append pathPoints_lineTo
        lineTo_def moveTo_def)
qed

lemma seam_right: "wavyBottom (grassRight cfg pos) = wavyTop (soilRight cfg pos)"
  by (simp add: wavyBottom_def wavyTop_def grassRight_def soilRight_def soilY_def Let_def
      add.commute add.left_commute)

lemma seam_left: "wavyBottom (grassLeft cfg pos) = wavyTop (soilLeft cfg pos)"
  by (simp add: wavyBottom_def wavyTop_def grassLeft_def soilLeft_def soilY_def Let_def
      add.commute add.left_commute)

text \<open>
  C1. For every tile and configuration, the wavy points of a grass face's bottom edge
  are, point for point, the wavy points of the top edge of the soil face below it, on
  the right side and on the left side. Both come from \<^verbatim>\<open>generateWavyEdge\<close> on one pair
  of end points with amplitude \<open>3 \<cdot> SCALE\<close>, frequency 2 and 16 segments, and have 17
  points. The soil face's path starts with these points; the grass face's path runs
  through the same points in the opposite direction. \<^verbatim>\<open>drawIsoBlock\<close> draws the two soil
  faces and then the two grass faces from these corners, before anything else.
\<close>

theorem C1_seam_continuity:
  "wavyBottom (grassRight cfg pos) = wavyTop (soilRight cfg pos)
   \<and> wavyBottom (grassLeft cfg pos) = wavyTop (soilLeft cfg pos)
   \<and> wavyTop (soilRight cfg pos)
       = generateWavyEdge (pixelX pos) (soilY cfg pos + tileWidth cfg / 2)
           (pixelX pos + tileWidth cfg / 2) (soilY cfg pos + tileWidth cfg / 2 / 2)
           (3 * SCALE) 2 16
   \<and> wavyTop (soilLeft cfg pos)
       = generateWavyEdge (pixelX pos - tileWidth cfg / 2) (soilY cfg pos + tileWidth cfg / 2 / 2)
           (pixelX pos) (soilY cfg pos + tileWidth cfg / 2)
           (3 * SCALE) 2 16
   \<and> length (wavyTop (soilRight cfg pos)) = 17
   \<and> length (wavyTop (soilLeft cfg pos)) = 17
   \<and> pathPoints (drawWavySoilSide (soilRight cfg pos) c1 s1)
       = wavyTop (soilRight cfg pos)
         @ [bottomRight (soilRight cfg pos), bottomLeft (soilRight cfg pos),
            hd (wavyTop (soilRight cfg pos))]
   \<and> pathPoints (drawWavyGrassSide (grassRight cfg pos) c2 s2)
       = [topLeft (grassRight cfg pos), topRight (grassRight cfg pos)]
         @ rev (wavyTop (soilRight cfg pos)) @ [topLeft (grassRight cfg pos)]
   \<and> pathPoints (drawWavySoilSide (soilLeft cfg pos) c3 s3)
       = wavyTop (soilLeft cfg pos)
         @ [bottomRight (soilLeft cfg pos), bottomLeft (soilLeft cfg pos),
            hd (wavyTop (soilLeft cfg pos))]
   \<and> pathPoints (drawWavyGrassSide (grassLeft cfg pos) c4 s4)
       = [topLeft (grassLeft cfg pos), topRight (grassLeft cfg pos)]
         @ rev (wavyTop (soilLeft cfg pos)) @ [topLeft (grassLeft cfg pos)]
   \<and> (\<exists>rest. drawIsoBlock cfg pos options
         = drawWavySoilSide (soilRight cfg pos) ''#6E757A'' None
           @ drawWavySoilSide (soilLeft cfg pos) ''#8B9298'' None
           @ drawWavyGrassSide (grassRight cfg pos) ''#C5D6E3'' None
           @ drawWavyGrassSide (grassLeft cfg pos) ''#D4E2ED'' None
           @ rest)"
proof -
  have d: "\<exists>rest. drawIsoBlock cfg pos options
         = drawWavySoilSide (soilRight cfg pos) ''#6E757A'' None
           @ drawWavySoilSide (soilLeft cfg pos) ''#8B9298'' None
           @ drawWavyGrassSide (grassRight cfg pos) ''#C5D6E3'' None
           @ drawWavyGrassSide (grassLeft cfg pos) ''#D4E2ED'' None
           @ rest"
    by (simp add: drawIsoBlock_def Let_def)
  have r: "wavyTop (soilRight cfg pos)
       = generateWavyEdge (pixelX pos) (soilY cfg pos + tileWidth cfg / 2)
           (pixelX pos + tileWidth cfg / 2) (soilY cfg pos + tileWidth cfg / 2 / 2)
           (3 * SCALE) 2 16"
    by (simp add: wavyTop_def soilRight_def Let_def WAVE_AMPLITUDE_def WAVE_FREQUENCY_def
        WAVE_SEGMENTS_def)
  have l: "wavyTop (soilLeft cfg pos)
       = generateWavyEdge (pixelX pos - tileWidth cfg / 2) (soilY cfg pos + tileWidth cfg / 2 / 2)
           (pixelX pos) (soilY cfg pos + tileWidth cfg / 2)
           (3 * SCALE) 2 16"
    by (simp add: wavyTop_def soilLeft_def Let_def WAVE_AMPLITUDE_def WAVE_FREQUENCY_def
        WAVE_SEGMENTS_def)
  have n: "length (wavyTop (soilRight cfg pos)) = 17" "length (wavyTop (soilLeft cfg pos)) = 17"
    by (simp_all add: wavyTop_def WAVE_SEGMENTS_def length_generateWavyEdge)
  have g: "pathPoints (drawWavyGrassSide (grassRight cfg pos) c2 s2)
       = [topLeft (grassRight cfg pos), topRight (grassRight cfg pos)]
         @ rev (wavyTop (soilRight cfg pos)) @ [topLeft (grassRight cfg pos)]"
      "pathPoints (drawWavyGrassSide (grassLeft cfg pos) c4 s4)
       = [topLeft (grassLeft cfg pos), topRight (grassLeft cfg pos)]
         @ rev (wavyTop (soilLeft cfg pos)) @ [topLeft (grassLeft cfg pos)]"
    by (simp_all only: pathPoints_grass seam_right seam_left)
  show ?thesis
    using r l n g d seam_right [of cfg pos] seam_left [of cfg pos]
      pathPoints_soil [of "soilRight cfg pos" c1 s1] pathPoints_soil [of "soilLeft cfg pos" c3 s3]
    by blast
qed


section \<open>Results on grid.ts: the content anchor\<close>

lemma rect_pixel:
  assumes "oneColourRectangle img R0 R1 C0 C1 colour" "y < imageHeight img" "x < imageWidth img"
  shows "if R0 \<le> y \<and> y \<le> R1 \<and> C0 \<le> x \<and> x \<le> C1
         then pixelAt img x y = (fst colour, fst (snd colour), snd (snd colour), 255)
         else snd (snd (snd (pixelAt img x y))) = 0"
  using assms unfolding oneColourRectangle_def list_all_iff by simp

lemma rect_scanPixel_out:
  assumes "oneColourRectangle img R0 R1 C0 C1 colour" "y < imageHeight img" "x < imageWidth img"
    and "\<not> (R0 \<le> y \<and> y \<le> R1 \<and> C0 \<le> x \<and> x \<le> C1)"
  shows "scanPixel img y x s = s"
proof -
  from rect_pixel [OF assms(1-3)] assms(4)
  have "snd (snd (snd (pixelAt img x y))) = 0" by (simp split: if_splits)
  then show ?thesis
    by (cases s) (simp add: scanPixel_def pixelAt_def Let_def)
qed

lemma rect_scanPixel_in:
  assumes "oneColourRectangle img R0 R1 C0 C1 colour" "y < imageHeight img" "x < imageWidth img"
    and "R0 \<le> y" "y \<le> R1" "C0 \<le> x" "x \<le> C1"
  shows "scanPixel img y x (h, t, c) = (True, t + rectDarkness colour, Suc c)"
proof -
  from rect_pixel [OF assms(1-3)] assms(4-7)
  have "pixelAt img x y = (fst colour, fst (snd colour), snd (snd colour), 255)" by simp
  then show ?thesis
    by (simp add: scanPixel_def pixelAt_def Let_def rectDarkness_def)
qed

lemma rect_scanRow_outside:
  assumes r: "oneColourRectangle img R0 R1 C0 C1 colour" and y: "y < imageHeight img"
    and out: "\<not> (R0 \<le> y \<and> y \<le> R1)"
  shows "k \<le> imageWidth img \<Longrightarrow> fold (scanPixel img y) [0..<k] s = s"
proof (induction k)
  case 0
  then show ?case by simp
next
  case (Suc k)
  then have k: "k < imageWidth img" by simp
  have "scanPixel img y k s = s"
    using out by (intro rect_scanPixel_out [OF r y k]) blast
  with Suc show ?case by simp
qed

lemma rect_scanRow_inside:
  assumes r: "oneColourRectangle img R0 R1 C0 C1 colour" and y: "y < imageHeight img"
    and inside: "R0 \<le> y" "y \<le> R1"
  shows "k \<le> imageWidth img \<Longrightarrow>
         fold (scanPixel img y) [0..<k] (False, 0, 0) =
           (C0 < k, real (min k (Suc C1) - C0) * rectDarkness colour, min k (Suc C1) - C0)"
proof (induction k)
  case 0
  then show ?case by simp
next
  case (Suc k)
  then have k: "k < imageWidth img" and
    ih: "fold (scanPixel img y) [0..<k] (False, 0, 0) =
           (C0 < k, real (min k (Suc C1) - C0) * rectDarkness colour, min k (Suc C1) - C0)"
    by simp_all
  from r have c: "C0 \<le> C1" by (simp add: oneColourRectangle_def)
  consider "k < C0" | "C0 \<le> k \<and> k \<le> C1" | "C1 < k" by linarith
  then show ?case
  proof cases
    case 1
    then have "scanPixel img y k (C0 < k, real (min k (Suc C1) - C0) * rectDarkness colour,
        min k (Suc C1) - C0) = (C0 < k, real (min k (Suc C1) - C0) * rectDarkness colour,
        min k (Suc C1) - C0)"
      by (intro rect_scanPixel_out [OF r y k]) simp
    with 1 ih show ?thesis by simp
  next
    case 2
    then have "scanPixel img y k (C0 < k, real (min k (Suc C1) - C0) * rectDarkness colour,
        min k (Suc C1) - C0) = (True, real (min k (Suc C1) - C0) * rectDarkness colour
        + rectDarkness colour, Suc (min k (Suc C1) - C0))"
      using inside by (intro rect_scanPixel_in [OF r y k]) simp_all
    moreover from 2 have "min (Suc k) (Suc C1) - C0 = Suc (min k (Suc C1) - C0)"
      by (auto simp: min_def Suc_diff_le)
    ultimately show ?thesis
      using 2 ih by (simp add: algebra_simps)
  next
    case 3
    then have "scanPixel img y k (C0 < k, real (min k (Suc C1) - C0) * rectDarkness colour,
        min k (Suc C1) - C0) = (C0 < k, real (min k (Suc C1) - C0) * rectDarkness colour,
        min k (Suc C1) - C0)"
      by (intro rect_scanPixel_out [OF r y k]) simp
    moreover from 3 have "min (Suc k) (Suc C1) - C0 = min k (Suc C1) - C0"
      by (auto simp: min_def)
    ultimately show ?thesis
      using 3 c ih by simp
  qed
qed

lemma rect_scanRow:
  assumes r: "oneColourRectangle img R0 R1 C0 C1 colour" and y: "y < imageHeight img"
  shows "scanRow img y =
           (if R0 \<le> y \<and> y \<le> R1
            then (True, real (Suc C1 - C0) * rectDarkness colour, Suc C1 - C0)
            else (False, 0, 0))"
proof (cases "R0 \<le> y \<and> y \<le> R1")
  case False
  then show ?thesis
    unfolding scanRow_def using rect_scanRow_outside [OF r y False, of "imageWidth img"] by simp
next
  case True
  from r have "C0 \<le> C1" "C1 < imageWidth img" by (simp_all add: oneColourRectangle_def)
  then have "C0 < imageWidth img" "min (imageWidth img) (Suc C1) = Suc C1" by simp_all
  with True show ?thesis
    unfolding scanRow_def using rect_scanRow_inside [OF r y, of "imageWidth img"] by simp
qed

lemma rect_scanRows_step:
  assumes r: "oneColourRectangle img R0 R1 C0 C1 colour" and y: "y < imageHeight img"
  shows "scanRows img (Suc y) cands =
           (if R0 \<le> y \<and> y \<le> R1
            then (if real (Suc (length cands)) > real (imageHeight img) * 0.3
                  then cands @ [(y, rectDarkness colour)]
                  else scanRows img y (cands @ [(y, rectDarkness colour)]))
            else scanRows img y cands)"
proof -
  from r have "C0 \<le> C1" by (simp add: oneColourRectangle_def)
  then have "real (Suc C1 - C0) \<noteq> 0" by simp
  then show ?thesis
    by (simp add: rect_scanRow [OF r y] Let_def del: of_nat_Suc)
qed

lemma rect_scanRows_uniform:
  assumes r: "oneColourRectangle img R0 R1 C0 C1 colour"
  shows "n \<le> imageHeight img \<Longrightarrow> uniformFrom R1 (rectDarkness colour) cands \<Longrightarrow>
         uniformFrom R1 (rectDarkness colour) (scanRows img n cands)"
proof (induction n arbitrary: cands)
  case 0
  then show ?case by simp
next
  case (Suc n)
  then have n: "n < imageHeight img" "n \<le> imageHeight img" by simp_all
  have ext: "uniformFrom R1 (rectDarkness colour) (cands @ [(n, rectDarkness colour)])"
    using Suc.prems(2) by (simp add: uniformFrom_def)
  show ?case
    using Suc.IH [OF n(2) ext] Suc.IH [OF n(2) Suc.prems(2)] ext
    by (simp add: rect_scanRows_step [OF r n(1)] del: scanRows.simps)
qed

lemma rect_scanRows_skip:
  assumes r: "oneColourRectangle img R0 R1 C0 C1 colour"
  shows "Suc R1 \<le> n \<Longrightarrow> n \<le> imageHeight img \<Longrightarrow>
         scanRows img n cands = scanRows img (Suc R1) cands"
proof (induction n)
  case 0
  then show ?case by simp
next
  case (Suc n)
  show ?case
  proof (cases "n = R1")
    case True
    then show ?thesis by simp
  next
    case False
    with Suc.prems have a: "Suc R1 \<le> n" "n \<le> imageHeight img" "n < imageHeight img" "\<not> n \<le> R1"
      by simp_all
    then show ?thesis
      using Suc.IH by (simp add: rect_scanRows_step [OF r a(3)] del: scanRows.simps)
  qed
qed

lemma rect_candidates:
  assumes r: "oneColourRectangle img R0 R1 C0 C1 colour"
  shows "uniformFrom R1 (rectDarkness colour) (scanRows img (imageHeight img) [])"
proof -
  from r have b: "R0 \<le> R1" "R1 < imageHeight img" "R1 \<le> imageHeight img"
    by (simp_all add: oneColourRectangle_def)
  have one: "uniformFrom R1 (rectDarkness colour) [(R1, rectDarkness colour)]"
    by (simp add: uniformFrom_def)
  have "scanRows img (imageHeight img) [] = scanRows img (Suc R1) []"
    using b by (intro rect_scanRows_skip [OF r]) simp_all
  moreover have "uniformFrom R1 (rectDarkness colour) (scanRows img (Suc R1) [])"
    using b one rect_scanRows_uniform [OF r b(3) one]
    by (simp add: rect_scanRows_step [OF r b(2)] del: scanRows.simps)
  ultimately show ?thesis by simp
qed

lemma fold_darkest_uniform:
  "list_all (\<lambda>c. snd c = (dk :: real)) cands \<Longrightarrow> snd best = dk \<Longrightarrow>
   fold (\<lambda>candidate darkest. if snd candidate > snd darkest then candidate else darkest)
     cands best = best"
  by (induction cands arbitrary: best) simp_all

lemma darkestRow_uniform: "uniformFrom R1 dk cands \<Longrightarrow> darkestRow cands = (R1, dk)"
  unfolding uniformFrom_def darkestRow_def
  using fold_darkest_uniform [of dk cands "hd cands"] by simp

lemma rect_alpha:
  assumes "oneColourRectangle img R0 R1 C0 C1 colour" "y < imageHeight img" "x < imageWidth img"
  shows "sampleAt (imageData img) ((y * imageWidth img + x) * 4 + 3)
           = (if R0 \<le> y \<and> y \<le> R1 \<and> C0 \<le> x \<and> x \<le> C1 then 255 else 0)"
  using rect_pixel [OF assms] by (auto simp: pixelAt_def Let_def split: if_splits)

lemma rect_scanEdges_prefix:
  assumes r: "oneColourRectangle img R0 R1 C0 C1 colour"
  shows "k \<le> imageWidth img \<Longrightarrow>
         fold (\<lambda>x (leftmost, rightmost).
                 let index = (R1 * imageWidth img + x) * 4;
                     alpha = sampleAt (imageData img) (index + 3)
                 in if alpha > 245
                    then (if int x < leftmost then int x else leftmost,
                          if int x > rightmost then int x else rightmost)
                    else (leftmost, rightmost))
           [0..<k] (int (imageWidth img), -1)
         = (if C0 < k then (int C0, int (min (k - 1) C1)) else (int (imageWidth img), -1))"
proof (induction k)
  case 0
  then show ?case by simp
next
  case (Suc k)
  then have k: "k < imageWidth img" by simp
  from r have b: "R0 \<le> R1" "R1 < imageHeight img" "C0 \<le> C1" "C1 < imageWidth img"
    by (simp_all add: oneColourRectangle_def)
  have alpha: "sampleAt (imageData img) ((R1 * imageWidth img + k) * 4 + 3)
           = (if C0 \<le> k \<and> k \<le> C1 then 255 else 0)"
    using rect_alpha [OF r b(2) k] b(1) by simp
  consider "k < C0" | "k = C0" | "C0 < k \<and> k \<le> C1" | "C1 < k" by linarith
  then show ?case
  proof cases
    case 1
    with Suc k alpha show ?thesis by (simp add: Let_def)
  next
    case 2
    with Suc k alpha b show ?thesis by (simp add: Let_def)
  next
    case 3
    with Suc k alpha b show ?thesis by (auto simp: Let_def min_def)
  next
    case 4
    with Suc k alpha b show ?thesis by (auto simp: Let_def min_def)
  qed
qed

lemma rect_scanEdges:
  assumes r: "oneColourRectangle img R0 R1 C0 C1 colour"
  shows "scanEdges img R1 = (int C0, int C1)"
proof -
  from r have b: "C0 \<le> C1" "C1 < imageWidth img" by (simp_all add: oneColourRectangle_def)
  then have "C0 < imageWidth img" "min (imageWidth img - 1) C1 = C1" by simp_all
  then show ?thesis
    unfolding scanEdges_def using rect_scanEdges_prefix [OF r, of "imageWidth img"] by simp
qed

lemma oneColourRectangle_solid:
  "oneColourRectangle img R0 R1 C0 C1 colour \<Longrightarrow> solidRectangle img R0 R1 C0 C1"
  unfolding oneColourRectangle_def solidRectangle_def list_all_iff
  by (auto split: if_splits)

text \<open>
  C4 (as stated, refuted). \<open>twoColourSprite\<close> is transparent except for a solid opaque
  rectangle over the rows 2..3 and the columns 0..1, and row 3 is its lowest solid row.
  The detector returns \<open>yPadding = 1\<close> for it, not \<open>H - R1 - 1 = 4 - 3 - 1 = 0\<close>: of the
  two candidate rows, row 3 with darkness 15 and row 2 with darkness 765, it takes the
  darkest, row 2.
\<close>

theorem C4_counterexample:
  "solidRectangle twoColourSprite 2 3 0 1
   \<and> scanRows twoColourSprite (imageHeight twoColourSprite) [] = [(3, 15), (2, 765)]
   \<and> detectTreeContentPosition twoColourSprite
       = \<lparr>xOffset = - 1 / 2, yPadding = 1, contentWidth = 2\<rparr>
   \<and> yPadding (detectTreeContentPosition twoColourSprite)
       \<noteq> int (imageHeight twoColourSprite) - 3 - 1"
  by (simp add: solidRectangle_def detectTreeContentPosition_def twoColourSprite_def
      scanRow_def scanPixel_def pixelAt_def sampleAt_def darkestRow_def scanEdges_def Let_def
      eval_nat_numeral nth_append)

text \<open>
  C4 (amended). For every raster of width \<open>W\<close> and height \<open>H\<close> that is transparent
  (alpha 0) except for an opaque rectangle of one colour over the rows \<open>R0..R1\<close> and the
  columns \<open>C0..C1\<close>, the detector returns \<open>yPadding = H - R1 - 1\<close>,
  \<open>contentWidth = C1 - C0 + 1\<close> and \<open>xOffset = (C0 + C1) / 2 - W / 2\<close>.
\<close>

theorem C4_anchor_round_trip:
  "oneColourRectangle img R0 R1 C0 C1 colour \<Longrightarrow>
   detectTreeContentPosition img =
     \<lparr>xOffset = (real C0 + real C1) / 2 - real (imageWidth img) / 2,
      yPadding = int (imageHeight img) - int R1 - 1,
      contentWidth = int C1 - int C0 + 1\<rparr>"
proof -
  assume r: "oneColourRectangle img R0 R1 C0 C1 colour"
  let ?cands = "scanRows img (imageHeight img) []"
  have u: "uniformFrom R1 (rectDarkness colour) ?cands"
    by (rule rect_candidates [OF r])
  then have "?cands \<noteq> []" "fst (darkestRow ?cands) = R1"
    by (simp_all add: darkestRow_uniform) (simp add: uniformFrom_def)
  then show ?thesis
    by (simp add: detectTreeContentPosition_def Let_def rect_scanEdges [OF r])
qed

theorem C4_anchor_round_trip_witness:
  "oneColourRectangle rectSprite 1 2 1 2 (10, 20, 30)
   \<and> detectTreeContentPosition rectSprite = \<lparr>xOffset = 0, yPadding = 1, contentWidth = 2\<rparr>"
  using C4_anchor_round_trip [of rectSprite 1 2 1 2 "(10, 20, 30)"]
  by (simp add: oneColourRectangle_def rectSprite_def pixelAt_def sampleAt_def Let_def
      eval_nat_numeral nth_append)

text \<open>
  C7 (the program at two inputs). In a raster of 10 rows the bottom 30% are the rows
  7, 8 and 9. On \<open>topPixelSprite\<close> the scan goes through all ten rows and takes row 0 as
  the anchor row (\<open>yPadding = 9\<close>): the loop is left on the number of candidate rows,
  and a row without a solid pixel is not counted. On \<open>columnSprite\<close>, where every row is a
  candidate, the scan collects four rows, 9 down to 6, and takes row 6 as the anchor
  row (\<open>yPadding = 3\<close>): the loop is left only when there are more candidates than 3.
\<close>

theorem C7_failing_inputs:
  "scanRows topPixelSprite (imageHeight topPixelSprite) [] = [(0, 765)]
   \<and> detectTreeContentPosition topPixelSprite
       = \<lparr>xOffset = - 1 / 2, yPadding = 9, contentWidth = 1\<rparr>
   \<and> scanRows columnSprite (imageHeight columnSprite) [] = [(9, 0), (8, 0), (7, 0), (6, 765)]
   \<and> detectTreeContentPosition columnSprite
       = \<lparr>xOffset = - 1 / 2, yPadding = 3, contentWidth = 1\<rparr>"
  by (simp add: detectTreeContentPosition_def topPixelSprite_def columnSprite_def scanRow_def
      scanPixel_def sampleAt_def darkestRow_def scanEdges_def Let_def eval_nat_numeral
      nth_append)


section \<open>Results on filters.ts\<close>

lemma toUint8Clamp_of_int: "0 \<le> n \<Longrightarrow> n \<le> 255 \<Longrightarrow> toUint8Clamp (of_int n) = n"
  by (simp add: toUint8Clamp_def Let_def)

lemma clamp_round_floor: "clamp_round v = max 0 (min 255 \<lfloor>v + 1 / 2\<rfloor>)"
proof -
  define n where "n = \<lfloor>v + 1 / 2\<rfloor>"
  consider "v < 0" | "0 \<le> v \<and> v \<le> 255" | "255 < v" by linarith
  then have "\<lfloor>max 0 (min 255 v) + 1 / 2\<rfloor> = max 0 (min 255 n)"
  proof cases
    case 1
    then have "n \<le> 0" unfolding n_def by (simp add: floor_le_iff)
    then have "max 0 (min 255 n) = 0" by simp
    moreover from 1 have "max 0 (min 255 v) = 0" by simp
    ultimately show ?thesis by simp
  next
    case 2
    then have "0 \<le> n" "n \<le> 255"
      unfolding n_def by (simp_all add: le_floor_iff floor_le_iff)
    then have "max 0 (min 255 n) = n" by simp
    moreover from 2 have "max 0 (min 255 v) = v" by simp
    ultimately show ?thesis by (simp add: n_def)
  next
    case 3
    then have "255 \<le> n" unfolding n_def by (simp add: le_floor_iff)
    then have "max 0 (min 255 n) = 255" by simp
    moreover from 3 have "max 0 (min 255 v) = 255" by simp
    ultimately show ?thesis by simp
  qed
  then show ?thesis by (simp add: clamp_round_def n_def)
qed

lemma clamp_round_byte: "is_byte (clamp_round v)"
  by (simp add: clamp_round_floor is_byte_def)

lemma storeChannel_clamp_round: "storeChannel v = clamp_round v"
proof -
  let ?m = "max 0 (min 255 \<lfloor>v + 1 / 2\<rfloor>)"
  have "max 0 (min 255 (Math_round v)) = of_int ?m"
    by (simp add: Math_round_def of_int_max of_int_min)
  moreover have "toUint8Clamp (of_int ?m) = ?m"
    by (rule toUint8Clamp_of_int) simp_all
  ultimately show ?thesis
    by (simp add: storeChannel_def clamp_round_floor)
qed

lemma clamp_round_of_int: "is_byte n \<Longrightarrow> clamp_round (of_int n) = n"
  by (simp add: clamp_round_floor is_byte_def)

lemma temperatureBlock_stage: "temperatureBlock temp p = stage_temperature temp p"
  by (cases p)
    (auto simp: temperatureBlock_def stage_temperature_def Let_def mult.commute
      split: option.splits)

lemma saturationBlock_stage: "saturationBlock sat p = stage_saturation sat p"
  by (cases p) (simp add: saturationBlock_def stage_saturation_def luma_def Let_def)

lemma brightnessBlock_stage: "brightnessBlock br p = stage_brightness br p"
  by (cases p) (simp add: brightnessBlock_def stage_brightness_def Let_def)

lemma contrastBlock_stage: "contrastBlock c p = stage_contrast c p"
  by (cases p) (simp add: contrastBlock_def stage_contrast_def Let_def diff_divide_distrib)

lemma overlayBlock_stage: "overlayBlock ov p = stage_overlay ov p"
  by (cases p) (simp add: overlayBlock_def stage_overlay_def split: option.splits)

lemma adjustPixel_stages:
  "adjustPixel adj p =
     stage_overlay (colorOverlay adj) (stage_contrast (contrast adj)
       (stage_brightness (brightness adj) (stage_saturation (saturation adj)
         (stage_temperature (temperature adj) p))))"
  by (simp add: adjustPixel_def temperatureBlock_stage saturationBlock_stage
      brightnessBlock_stage contrastBlock_stage overlayBlock_stage)

lemma length_adjustData: "length (adjustData adj d) = length d"
  by (induction adj d rule: adjustData.induct) (auto split: prod.splits)

lemma adjustData_append:
  "length pre mod 4 = 0 \<Longrightarrow> adjustData adj (pre @ ys) = adjustData adj pre @ adjustData adj ys"
  by (induction adj pre rule: adjustData.induct) (auto split: prod.splits)

lemma adjustData_bytes: "list_all is_byte d \<Longrightarrow> list_all is_byte (adjustData adj d)"
  by (induction adj d rule: adjustData.induct)
    (auto simp: storeChannel_clamp_round clamp_round_byte split: prod.splits)

lemma getFilter_cases:
  "getFilter nm = Config f \<Longrightarrow> nm \<noteq> ''none'' \<or> f = FILTERS_none"
  by (auto simp: getFilter_def FILTERS_get_def FILTERS_def)

lemma none_pipeline:
  "is_byte r \<Longrightarrow> is_byte g \<Longrightarrow> is_byte b \<Longrightarrow>
   clamped_pipeline (canvasAdjustments FILTERS_none) (of_int r, of_int g, of_int b) = (r, g, b)"
  by (simp add: clamped_pipeline_def FILTERS_none_def stage_final_def stage_overlay_def
      stage_contrast_def stage_brightness_def stage_saturation_def stage_temperature_def
      luma_def clamp_round_of_int diff_divide_distrib)

lemma adjustData_pixel:
  "a \<noteq> 0 \<Longrightarrow>
   adjustData adj (r # g # b # a # rest) =
     (case clamped_pipeline adj (of_int r, of_int g, of_int b) of
        (r', g', b') \<Rightarrow> r' # g' # b' # a # adjustData adj rest)"
  by (simp add: clamped_pipeline_def adjustPixel_stages [symmetric] stage_final_def
      storeChannel_clamp_round split: prod.splits)

text \<open>
  C3. For every raster (an array of whole pixels of bytes) and every preset that a
  name resolves to, \<^verbatim>\<open>applyCanvasFilter\<close> completes, the raster keeps its size, and
  every sample of every channel of the result lies in the closed range 0..255.
\<close>

theorem C3_filter_bounds:
  "validImageData d \<Longrightarrow> getFilter nm = Config f \<Longrightarrow>
   \<exists>out. applyCanvasFilter d nm = Inr out \<and> length out = length d \<and> list_all is_byte out"
  by (auto simp: applyCanvasFilter_def Let_def validImageData_def length_adjustData adjustData_bytes)

theorem C3_filter_bounds_witness:
  "validImageData [200, 200, 250, 255] \<and> getFilter ''night'' = Config FILTERS_night
   \<and> (\<exists>out. applyCanvasFilter [200, 200, 250, 255] ''night'' = Inr out
          \<and> length out = length [200, 200, 250, 255 :: int] \<and> list_all is_byte out)"
  using C3_filter_bounds [of "[200, 200, 250, 255]" "''night''" FILTERS_night]
  by (simp add: validImageData_def is_byte_def getFilter_def FILTERS_get_def FILTERS_def)

text \<open>
  C10. For every raster and every preset that a name resolves to, each pixel of the
  result (the four samples at a position that is a multiple of four) has the alpha of
  the pixel of the input at that position, and a pixel whose alpha is 0 has all its
  four samples unchanged; the raster keeps its size. So only the red, green and blue
  samples of pixels with alpha other than 0 can change.
\<close>

theorem C10_frame:
  "getFilter nm = Config f \<Longrightarrow> length pre mod 4 = 0 \<Longrightarrow>
   \<exists>outPre r' g' b' outPost.
     applyCanvasFilter (pre @ [r, g, b, a] @ post) nm = Inr (outPre @ [r', g', b', a] @ outPost)
     \<and> length outPre = length pre \<and> length outPost = length post
     \<and> (a = 0 \<longrightarrow> r' = r \<and> g' = g \<and> b' = b)"
proof (cases "nm = ''none''")
  case True
  then have "applyCanvasFilter (pre @ [r, g, b, a] @ post) nm = Inr (pre @ [r, g, b, a] @ post)"
    by (simp add: applyCanvasFilter_def Let_def)
  then show ?thesis by blast
next
  case False
  assume f: "getFilter nm = Config f" and m: "length pre mod 4 = 0"
  let ?adj = "canvasAdjustments f"
  have out: "applyCanvasFilter (pre @ [r, g, b, a] @ post) nm
      = Inr (adjustData ?adj pre @ adjustData ?adj (r # g # b # a # post))"
    using False f m by (simp add: applyCanvasFilter_def Let_def adjustData_append)
  show ?thesis
  proof (cases "a = 0")
    case True
    then have "adjustData ?adj (r # g # b # a # post) = [r, g, b, a] @ adjustData ?adj post"
      by simp
    with out True show ?thesis
      by (metis length_adjustData)
  next
    case False
    obtain r' g' b' where "adjustPixel ?adj (of_int r, of_int g, of_int b) = (r', g', b')"
      by (cases "adjustPixel ?adj (of_int r, of_int g, of_int b)")
    with False have "adjustData ?adj (r # g # b # a # post)
        = [storeChannel r', storeChannel g', storeChannel b', a] @ adjustData ?adj post"
      by simp
    with out False show ?thesis
      by (metis length_adjustData)
  qed
qed

theorem C10_frame_witness:
  "getFilter ''night'' = Config FILTERS_night \<and> length ([] :: int list) mod 4 = 0
   \<and> (\<exists>outPre r' g' b' outPost.
         applyCanvasFilter ([] @ [10, 20, 30, 0] @ []) ''night''
           = Inr (outPre @ [r', g', b', 0] @ outPost)
         \<and> length outPre = 0 \<and> length outPost = 0 \<and> r' = 10 \<and> g' = 20 \<and> b' = 30)"
  using C10_frame [of "''night''" FILTERS_night "[]" 10 20 30 0 "[]"]
  by (simp add: getFilter_def FILTERS_get_def FILTERS_def)

text \<open>
  C6 (as stated, refuted). Under the preset \<open>night\<close> the opaque pixel \<open>(200, 200, 250)\<close>
  becomes \<open>(142, 153, 199)\<close>. The six stages of the specification, whose temperature
  shift adds and subtracts without a bound, give \<open>(142, 153, 205)\<close>: the program cuts
  the shifted blue \<open>265\<close> down to \<open>255\<close> before the saturation stage.
\<close>

theorem C6_counterexample:
  "getFilter ''night'' = Config FILTERS_night
   \<and> applyCanvasFilter [200, 200, 250, 255] ''night'' = Inr [142, 153, 199, 255]
   \<and> spec_pipeline (canvasAdjustments FILTERS_night) (200, 200, 250) = (142, 153, 205)"
  by (simp add: applyCanvasFilter_def getFilter_def FILTERS_get_def FILTERS_def
      FILTERS_night_def adjustPixel_def temperatureBlock_def saturationBlock_def
      brightnessBlock_def contrastBlock_def overlayBlock_def Let_def storeChannel_def
      toUint8Clamp_def
      Math_round_def spec_pipeline_def stage_final_def stage_overlay_def stage_contrast_def
      stage_brightness_def stage_saturation_def stage_temperature_unclamped_def luma_def
      clamp_round_def)

text \<open>
  C6 (amended). For every pixel with alpha other than 0, of every raster and under
  every preset that a name resolves to, the three channels stored are those of six
  stages applied in this order: (1) the temperature shift with \<open>f = temperature / 100\<close>,
  each shifted channel cut off on one side (warm: \<open>r = min 255 (r + 30 f)\<close>,
  \<open>g = min 255 (g + 10 f)\<close>, \<open>b = max 0 (b - 20 f)\<close>; cool: \<open>r = max 0 (r + 20 f)\<close>,
  \<open>b = min 255 (b - 30 f)\<close>), (2) saturation about luma, (3) additive brightness,
  (4) contrast gain about 128, (5) colour overlay blend, (6) clamping to 0..255 and
  rounding to the nearest integer. Rounding happens in the last stage only.
\<close>

theorem C6_clamped_pipeline:
  "getFilter nm = Config f \<Longrightarrow> validImageData (pre @ [r, g, b, a] @ post) \<Longrightarrow>
   length pre mod 4 = 0 \<Longrightarrow> a \<noteq> 0 \<Longrightarrow>
   \<exists>outPre outPost.
     applyCanvasFilter (pre @ [r, g, b, a] @ post) nm
       = Inr (outPre
              @ (case clamped_pipeline (canvasAdjustments f) (of_int r, of_int g, of_int b) of
                   (r', g', b') \<Rightarrow> [r', g', b', a])
              @ outPost)
     \<and> length outPre = length pre \<and> length outPost = length post"
proof (cases "nm = ''none''")
  case True
  assume f: "getFilter nm = Config f" and v: "validImageData (pre @ [r, g, b, a] @ post)"
  from f True have "f = FILTERS_none"
    using getFilter_cases by blast
  moreover from v have "is_byte r" "is_byte g" "is_byte b"
    by (simp_all add: validImageData_def)
  ultimately have "clamped_pipeline (canvasAdjustments f) (of_int r, of_int g, of_int b) = (r, g, b)"
    by (simp add: none_pipeline)
  moreover have "applyCanvasFilter (pre @ [r, g, b, a] @ post) nm = Inr (pre @ [r, g, b, a] @ post)"
    using True by (simp add: applyCanvasFilter_def Let_def)
  ultimately show ?thesis
    by (intro exI [of _ pre] exI [of _ post]) simp
next
  case False
  assume f: "getFilter nm = Config f" and m: "length pre mod 4 = 0" and a: "a \<noteq> 0"
  let ?adj = "canvasAdjustments f"
  obtain r' g' b' where p: "clamped_pipeline ?adj (of_int r, of_int g, of_int b) = (r', g', b')"
    by (cases "clamped_pipeline ?adj (of_int r, of_int g, of_int b)")
  have "applyCanvasFilter (pre @ [r, g, b, a] @ post) nm
      = Inr (adjustData ?adj pre @ adjustData ?adj (r # g # b # a # post))"
    using False f m by (simp add: applyCanvasFilter_def Let_def adjustData_append)
  also have "adjustData ?adj (r # g # b # a # post) = [r', g', b', a] @ adjustData ?adj post"
    using a p by (simp add: adjustData_pixel del: adjustData.simps)
  finally show ?thesis
    using p by (intro exI [of _ "adjustData ?adj pre"] exI [of _ "adjustData ?adj post"])
      (simp add: length_adjustData)
qed

theorem C6_clamped_pipeline_witness:
  "getFilter ''night'' = Config FILTERS_night \<and> validImageData ([] @ [200, 200, 250, 255] @ [])
   \<and> length ([] :: int list) mod 4 = 0 \<and> (255 :: int) \<noteq> 0
   \<and> applyCanvasFilter [200, 200, 250, 255] ''night'' = Inr [142, 153, 199, 255]"
  using C6_clamped_pipeline [of "''night''" FILTERS_night "[]" 200 200 250 255 "[]"]
  by (simp add: getFilter_def FILTERS_get_def FILTERS_def validImageData_def is_byte_def
      FILTERS_night_def clamped_pipeline_def stage_final_def stage_overlay_def
      stage_contrast_def stage_brightness_def stage_saturation_def stage_temperature_def
      luma_def clamp_round_def Let_def)

text \<open>
  The lookup on the names it handles: each of the eight catalog names gives its entry,
  and a name that is neither a catalog name nor the name of a property inherited from
  \<^verbatim>\<open>Object.prototype\<close> gives the identity preset \<open>none\<close>. Applying \<open>none\<close> with
  \<^verbatim>\<open>applyCanvasFilter\<close> returns the raster as it was.
\<close>

lemma getFilter_catalog:
  "getFilter ''none'' = Config FILTERS_none" "getFilter ''winter'' = Config FILTERS_winter"
  "getFilter ''autumn'' = Config FILTERS_autumn" "getFilter ''spring'' = Config FILTERS_spring"
  "getFilter ''summer'' = Config FILTERS_summer" "getFilter ''night'' = Config FILTERS_night"
  "getFilter ''sepia'' = Config FILTERS_sepia" "getFilter ''vintage'' = Config FILTERS_vintage"
  by (simp_all add: getFilter_def FILTERS_get_def FILTERS_def)

lemma getFilter_fallback:
  "nm \<notin> set Object_prototype_keys \<Longrightarrow> nm \<notin> set (map fst FILTERS) \<Longrightarrow>
   getFilter nm = Config FILTERS_none"
  by (auto simp: getFilter_def FILTERS_get_def map_of_eq_None_iff [THEN iffD2]
      split: option.splits)

lemma applyCanvasFilter_none: "applyCanvasFilter d ''none'' = Inr d"
  by (simp add: applyCanvasFilter_def Let_def)

text \<open>
  C9 (the program at the failing input). The name \<open>constructor\<close> is not one of the eight
  catalog names. The lookup sends another such name, \<open>foo\<close>, to the identity preset, as
  the fallback in \<^verbatim>\<open>FILTERS[name] || FILTERS.none\<close> is written to do. For \<open>constructor\<close> it
  returns no preset at all: the property read finds the function that every object
  inherits under that name, and the fallback is not taken. \<^verbatim>\<open>applyCanvasFilter\<close> then
  raises on a raster with a visible pixel.
\<close>

theorem C9_failing_input:
  "''constructor'' \<notin> set (map fst FILTERS)
   \<and> getFilter ''foo'' = Config FILTERS_none
   \<and> getFilter ''constructor'' = Inherited ''constructor''
   \<and> getFilter ''constructor'' \<noteq> Config FILTERS_none
   \<and> applyCanvasFilter [0, 0, 0, 255] ''constructor'' = Inl TypeError
   \<and> applyCanvasFilter [0, 0, 0, 255] ''none'' = Inr [0, 0, 0, 255]"
  by (simp add: applyCanvasFilter_def Let_def getFilter_def FILTERS_get_def FILTERS_def
      Object_prototype_keys_def)

end
